theory Spec2Isabelle
  imports Main "HOL-Library.Word" "HOL-Library.List_Lexorder" "HOL-Library.Sublist"
begin

section \<open>JavaScript strings and the built-ins the manager calls\<close>

text \<open>
  A JavaScript string is a sequence of 16-bit UTF-16 code units. Equality (\<open>===\<close>),
  \<open>split\<close>, \<open>trim\<close>, \<open>includes\<close> and the default order of \<open>sort\<close> all work on
  code units, so a string is a list of 16-bit words. The empty string is the only falsy
  string.
\<close>

type_synonym code_unit = "16 word"
type_synonym jsstring = "code_unit list"

definition utf16 :: "string \<Rightarrow> jsstring" where
  \<comment> \<open>The code units of an ASCII literal.\<close>
  "utf16 cs = map (\<lambda>c. of_nat (of_char c)) cs"

definition truthy :: "jsstring option \<Rightarrow> bool" where
  \<comment> \<open>ToBoolean of a property that is either absent (\<open>undefined\<close>, \<open>None\<close>) or a
      string: only a non-empty string is truthy.\<close>
  "truthy v = (case v of None \<Rightarrow> False | Some s \<Rightarrow> s \<noteq> [])"

fun split :: "code_unit \<Rightarrow> jsstring \<Rightarrow> jsstring list" where
  \<comment> \<open>\<open>String.prototype.split\<close> with a one-code-unit separator and no limit: the
      pieces between the occurrences of the separator; \<open>"".split(",")\<close> is \<open>[""]\<close>.\<close>
  "split sep [] = [[]]"
| "split sep (c # cs) =
     (if c = sep then [] # split sep cs
      else (case split sep cs of
              [] \<Rightarrow> [[c]]
            | piece # pieces \<Rightarrow> (c # piece) # pieces))"

definition isWhiteSpace :: "code_unit \<Rightarrow> bool" where
  \<comment> \<open>ECMAScript WhiteSpace and LineTerminator code points (all in the BMP): TAB, LF,
      VT, FF, CR, SP, NBSP, U+1680, U+2000 to U+200A, LS, PS, U+202F, U+205F, U+3000
      and ZWNBSP.\<close>
  "isWhiteSpace c \<longleftrightarrow>
     c \<in> set [0x0009, 0x000A, 0x000B, 0x000C, 0x000D, 0x0020, 0x00A0, 0x1680,
              0x2000, 0x2001, 0x2002, 0x2003, 0x2004, 0x2005, 0x2006, 0x2007,
              0x2008, 0x2009, 0x200A, 0x2028, 0x2029, 0x202F, 0x205F, 0x3000, 0xFEFF]"

definition trim :: "jsstring \<Rightarrow> jsstring" where
  \<comment> \<open>\<open>String.prototype.trim\<close>: leading and trailing white space removed.\<close>
  "trim s = rev (dropWhile isWhiteSpace (rev (dropWhile isWhiteSpace s)))"

fun startsWith :: "jsstring \<Rightarrow> jsstring \<Rightarrow> bool" where
  \<comment> \<open>\<open>startsWith s t\<close>: the code units of \<open>t\<close> stand at the start of \<open>s\<close>.\<close>
  "startsWith s [] = True"
| "startsWith [] (d # t) = False"
| "startsWith (c # s) (d # t) = (c = d \<and> startsWith s t)"

fun includes_str :: "jsstring \<Rightarrow> jsstring \<Rightarrow> bool" where
  \<comment> \<open>\<open>String.prototype.includes\<close>: the search string occurs at some index, tried
      from index 0 to the end of the string.\<close>
  "includes_str [] t = startsWith [] t"
| "includes_str (c # s) t = (startsWith (c # s) t \<or> includes_str s t)"

definition set_add :: "'a \<Rightarrow> 'a list \<Rightarrow> 'a list" where
  \<comment> \<open>\<open>Set.prototype.add\<close> on a Set kept as the list of its elements in insertion
      order (the order in which \<open>Array.from\<close> reads them).\<close>
  "set_add x xs = (if x \<in> set xs then xs else xs @ [x])"

fun findIndex :: "('a \<Rightarrow> bool) \<Rightarrow> 'a list \<Rightarrow> nat option" where
  \<comment> \<open>\<open>Array.prototype.findIndex\<close>: the first index whose element satisfies the
      predicate; \<open>None\<close> stands for the result \<open>-1\<close>.\<close>
  "findIndex P [] = None"
| "findIndex P (x # xs) =
     (if P x then Some 0 else map_option Suc (findIndex P xs))"

text \<open>
  \<open>String.prototype.toLowerCase\<close> is the default case conversion of Unicode, a table
  that the repository does not hold. The operations below take the conversion as a
  parameter, so what is proved of them holds for the runtime's conversion whatever its
  table. The function \<open>toLowerCase\<close> defined here is that conversion on strings made of
  ASCII characters and of the unaccented Greek letters U+0391 to U+03A9 and U+03B1 to
  U+03C9, the strings it is applied to below; it leaves every other code unit as it is,
  which is not what the runtime does for all of them. A capital sigma becomes the final
  sigma U+03C2 when a cased letter stands before it, with nothing but case-ignorable
  characters between, and no cased letter follows it in the same way; otherwise it
  becomes U+03C3.
\<close>

definition isCased :: "code_unit \<Rightarrow> bool" where
  \<comment> \<open>The cased letters among the code units named above.\<close>
  "isCased c \<longleftrightarrow>
     (0x41 \<le> c \<and> c \<le> 0x5A) \<or> (0x61 \<le> c \<and> c \<le> 0x7A) \<or>
     (0x391 \<le> c \<and> c \<le> 0x3A1) \<or> (0x3A3 \<le> c \<and> c \<le> 0x3A9) \<or>
     (0x3B1 \<le> c \<and> c \<le> 0x3C9)"

definition isCaseIgnorable :: "code_unit \<Rightarrow> bool" where
  \<comment> \<open>The case-ignorable characters among them: apostrophe, full stop, colon,
      circumflex and grave accent.\<close>
  "isCaseIgnorable c \<longleftrightarrow> c \<in> set [0x27, 0x2E, 0x3A, 0x5E, 0x60]"

definition lowerUnit :: "code_unit \<Rightarrow> code_unit" where
  \<comment> \<open>The lower-case mapping of one code unit, apart from the final sigma.\<close>
  "lowerUnit c =
     (if (0x41 \<le> c \<and> c \<le> 0x5A) \<or> (0x391 \<le> c \<and> c \<le> 0x3A1) \<or>
         (0x3A3 \<le> c \<and> c \<le> 0x3A9)
      then c + 0x20 else c)"

definition nextToCased :: "jsstring \<Rightarrow> bool" where
  \<comment> \<open>The first code unit that is not case-ignorable is a cased letter.\<close>
  "nextToCased s =
     (case dropWhile isCaseIgnorable s of [] \<Rightarrow> False | c # _ \<Rightarrow> isCased c)"

fun lowerFrom :: "jsstring \<Rightarrow> jsstring \<Rightarrow> jsstring" where
  \<comment> \<open>\<open>lowerFrom before s\<close> converts \<open>s\<close>; \<open>before\<close> holds the code units already
      passed, the nearest first.\<close>
  "lowerFrom before [] = []"
| "lowerFrom before (c # rest) =
     (if c = 0x3A3
      then (if nextToCased before \<and> \<not> nextToCased rest then 0x3C2 else 0x3C3)
      else lowerUnit c) # lowerFrom (c # before) rest"

definition toLowerCase :: "jsstring \<Rightarrow> jsstring" where
  "toLowerCase s = lowerFrom [] s"


section \<open>Data model\<close>

text \<open>
  The form data handed to \<open>addPrompt\<close> and \<open>updatePrompt\<close>: \<open>title\<close> and \<open>content\<close>
  are stored as they come; \<open>category\<close> and \<open>groups\<close> are tested for truthiness, so
  they are either absent or a string.
\<close>

record data =
  title :: jsstring
  content :: jsstring
  category :: "jsstring option"
  groups :: "jsstring option"

text \<open>
  The filter of the panel, \<open>currentFilter\<close>.
\<close>

record filter_state =
  search :: jsstring
  category :: jsstring
  group :: jsstring

text \<open>
  A stored prompt. The code guards every read of \<open>groups\<close> against a missing array
  (\<open>prompt.groups || []\<close>, \<open>!prompt.groups\<close>), so the field is optional here; an empty
  array is truthy in JavaScript and is \<open>Some []\<close>.
\<close>

record prompt =
  prompt_id :: jsstring
  title :: jsstring
  content :: jsstring
  category :: jsstring
  groups :: "jsstring list option"
  createdAt :: jsstring
  updatedAt :: jsstring

text \<open>
  The state the operations run on: the two fields of \<open>PromptManager\<close> and the value
  that \<open>chrome.storage.local\<close> holds under the key \<open>prompts\<close> (\<open>None\<close> when the key
  was never written). The storage keeps a serialised copy, so it shares nothing with
  the array in memory.
\<close>

record state =
  prompts :: "prompt list"
  currentFilter :: filter_state
  stored :: "prompt list option"

text \<open>
  A call of the storage collaborator either resolves or rejects; a rejection is the only
  exception the modelled operations can raise. An operation returns the error raised, if
  any, with the state at that point: what was changed in memory before a failed write
  stays changed.
\<close>

datatype outcome = Resolves | Rejects

datatype error = StorageError


section \<open>Operations of PromptManager\<close>

definition constructor :: "prompt list option \<Rightarrow> state" where
  \<comment> \<open>The fields set by the constructor, in front of a storage holding the given value.\<close>
  "constructor st =
     \<lparr>prompts = [],
      currentFilter = \<lparr>search = [], filter_state.category = [], group = []\<rparr>,
      stored = st\<rparr>"

definition loadPrompts :: "outcome \<Rightarrow> state \<Rightarrow> error option \<times> state" where
  "loadPrompts get s =
     (case get of
        Rejects \<Rightarrow> (Some StorageError, s)
      | Resolves \<Rightarrow>
          (None, s\<lparr>prompts := (case stored s of None \<Rightarrow> [] | Some ps \<Rightarrow> ps)\<rparr>))"

definition savePrompts :: "outcome \<Rightarrow> state \<Rightarrow> error option \<times> state" where
  "savePrompts put s =
     (case put of
        Rejects \<Rightarrow> (Some StorageError, s)
      | Resolves \<Rightarrow> (None, s\<lparr>stored := Some (prompts s)\<rparr>))"

definition defaultCategory :: jsstring where
  \<comment> \<open>The literal of lines 77 and 96: the three code units U+672A U+5206 U+7C7B.\<close>
  "defaultCategory = [0x672A, 0x5206, 0x7C7B]"

definition categoryOf :: "data \<Rightarrow> jsstring" where
  \<comment> \<open>\<open>data.category || <literal>\<close>\<close>
  "categoryOf d =
     (if truthy (data.category d) then the (data.category d) else defaultCategory)"

definition groupsOf :: "data \<Rightarrow> jsstring list" where
  \<comment> \<open>\<open>data.groups ? data.groups.split(',').map(g => g.trim()).filter(g => g) : []\<close>\<close>
  "groupsOf d =
     (if truthy (data.groups d)
      then filter (\<lambda>g. g \<noteq> []) (map trim (split 0x2C (the (data.groups d))))
      else [])"

definition newPrompt :: "jsstring \<Rightarrow> jsstring \<Rightarrow> data \<Rightarrow> prompt" where
  \<comment> \<open>The object literal of \<open>addPrompt\<close>: \<open>newId\<close> is the result of \<open>generateId()\<close>
      and \<open>now\<close> that of \<open>new Date().toISOString()\<close> at the call.\<close>
  "newPrompt newId now d =
     \<lparr>prompt_id = newId,
      title = data.title d,
      content = data.content d,
      category = categoryOf d,
      groups = Some (groupsOf d),
      createdAt = now,
      updatedAt = now\<rparr>"

definition addPrompt ::
  "outcome \<Rightarrow> jsstring \<Rightarrow> jsstring \<Rightarrow> data \<Rightarrow> state \<Rightarrow> error option \<times> state" where
  \<comment> \<open>\<open>unshift\<close>, then the storage write, whose outcome is \<open>put\<close>.\<close>
  "addPrompt put newId now d s =
     (let prompt = newPrompt newId now d
      in savePrompts put (s\<lparr>prompts := prompt # prompts s\<rparr>))"

fun addAll :: "(outcome \<times> jsstring \<times> jsstring \<times> data) list \<Rightarrow> state \<Rightarrow> state" where
  \<comment> \<open>A sequence of \<open>addPrompt\<close> calls, each with the outcome of its write, its
      fresh id, its time and its form data; the panel goes on after a failed write.\<close>
  "addAll [] s = s"
| "addAll ((put, newId, now, d) # calls) s = addAll calls (snd (addPrompt put newId now d s))"

definition updatePrompt ::
  "outcome \<Rightarrow> jsstring \<Rightarrow> jsstring \<Rightarrow> data \<Rightarrow> state \<Rightarrow> error option \<times> state" where
  "updatePrompt put now i d s =
     (case findIndex (\<lambda>p. prompt_id p = i) (prompts s) of
        None \<Rightarrow> (None, s)
      | Some index \<Rightarrow>
          savePrompts put
            (s\<lparr>prompts := (prompts s)
                 [index := (prompts s ! index)
                    \<lparr>title := data.title d,
                     content := data.content d,
                     category := categoryOf d,
                     groups := Some (groupsOf d),
                     updatedAt := now\<rparr>]\<rparr>))"

definition deletePrompt :: "outcome \<Rightarrow> jsstring \<Rightarrow> state \<Rightarrow> error option \<times> state" where
  "deletePrompt put i s =
     savePrompts put (s\<lparr>prompts := filter (\<lambda>p. prompt_id p \<noteq> i) (prompts s)\<rparr>)"

definition getCategories :: "state \<Rightarrow> jsstring list" where
  \<comment> \<open>The default \<open>sort\<close> orders strings by their code units, the lexicographic order
      of the lists.\<close>
  "getCategories s =
     sort (fold (\<lambda>p categories. if category p \<noteq> [] then set_add (category p) categories
                                 else categories)
             (prompts s) [])"

definition passes :: "(jsstring \<Rightarrow> jsstring) \<Rightarrow> filter_state \<Rightarrow> prompt \<Rightarrow> bool" where
  \<comment> \<open>The callback of \<open>getFilteredPrompts\<close>, with its three early returns.
      \<open>lowerCase\<close> is the runtime's \<open>String.prototype.toLowerCase\<close>.\<close>
  "passes lowerCase f p =
     (if search f \<noteq> [] \<and>
         (let searchLower = lowerCase (search f);
              matchTitle = includes_str (lowerCase (title p)) searchLower;
              matchContent = includes_str (lowerCase (content p)) searchLower
          in \<not> matchTitle \<and> \<not> matchContent)
      then False
      else if filter_state.category f \<noteq> [] \<and> category p \<noteq> filter_state.category f
      then False
      else if group f \<noteq> [] \<and>
              (case groups p of None \<Rightarrow> True | Some gs \<Rightarrow> group f \<notin> set gs)
      then False
      else True)"

definition getFilteredPrompts :: "(jsstring \<Rightarrow> jsstring) \<Rightarrow> state \<Rightarrow> prompt list" where
  "getFilteredPrompts lowerCase s =
     filter (passes lowerCase (currentFilter s)) (prompts s)"



section \<open>Example data\<close>

text \<open>
  The form data of the specification's example, two stored prompts, a collection holding
  both, and a collection in which two prompts carry the same id.
\<close>

definition exampleData :: data where
  "exampleData =
     \<lparr>data.title = utf16 ''A'', data.content = utf16 ''hello world'',
      data.category = Some [], data.groups = Some (utf16 ''x, y, '')\<rparr>"

definition promptWork :: prompt where
  "promptWork =
     \<lparr>prompt_id = utf16 ''a'', title = utf16 ''P1'', content = utf16 ''first'',
      category = utf16 ''work'', groups = Some [utf16 ''x''],
      createdAt = utf16 ''2024-01-01T00:00:00.000Z'',
      updatedAt = utf16 ''2024-01-01T00:00:00.000Z''\<rparr>"

definition promptLife :: prompt where
  "promptLife =
     \<lparr>prompt_id = utf16 ''b'', title = utf16 ''P2'', content = utf16 ''second'',
      category = utf16 ''life'', groups = Some [],
      createdAt = utf16 ''2024-01-02T00:00:00.000Z'',
      updatedAt = utf16 ''2024-01-02T00:00:00.000Z''\<rparr>"

definition exampleState :: state where
  "exampleState =
     \<lparr>prompts = [promptWork, promptLife],
      currentFilter = \<lparr>search = [], filter_state.category = [], group = []\<rparr>,
      stored = Some [promptWork, promptLife]\<rparr>"

definition duplicateIdState :: state where
  "duplicateIdState =
     \<lparr>prompts = [promptWork, promptLife\<lparr>prompt_id := utf16 ''a''\<rparr>],
      currentFilter = \<lparr>search = [], filter_state.category = [], group = []\<rparr>,
      stored = None\<rparr>"

text \<open>
  Form data with a category and two groups, for an edit.
\<close>

definition editData :: data where
  "editData =
     \<lparr>data.title = utf16 ''B'', data.content = utf16 ''new text'',
      data.category = Some (utf16 ''home''), data.groups = Some (utf16 ''a,b ,'')\<rparr>"




section \<open>The built-ins behave as the language defines them\<close>

text \<open>
  \<open>split\<close> returns at least one piece, no piece holds the separator, and the pieces
  with the separator between them are the string. \<open>trim\<close> removes white space at both
  ends and nothing else. \<open>includes\<close> is the contiguous-part relation, and
  \<open>findIndex\<close> returns the first index of a match.
\<close>

lemma split_not_Nil: "split sep s \<noteq> []"
  by (induction s) (auto split: list.splits)

lemma split_no_sep: "p \<in> set (split sep s) \<Longrightarrow> sep \<notin> set p"
  by (induction s arbitrary: p) (auto split: list.splits if_splits)

lemma split_join: "concat (map (\<lambda>p. sep # p) (split sep s)) = sep # s"
  by (induction s) (auto split: list.splits)

lemma trim_decomp: "\<exists>a b. s = a @ trim s @ b \<and> (\<forall>c \<in> set a. isWhiteSpace c) \<and> (\<forall>c \<in> set b. isWhiteSpace c)"
proof -
  let ?t = "dropWhile isWhiteSpace s"
  have 1: "s = takeWhile isWhiteSpace s @ ?t" by simp
  have "rev ?t = takeWhile isWhiteSpace (rev ?t) @ dropWhile isWhiteSpace (rev ?t)" by simp
  then have "?t = rev (dropWhile isWhiteSpace (rev ?t)) @ rev (takeWhile isWhiteSpace (rev ?t))"
    by (metis rev_append rev_rev_ident)
  then have 2: "?t = trim s @ rev (takeWhile isWhiteSpace (rev ?t))"
    by (simp add: trim_def)
  have 3: "\<forall>c \<in> set (takeWhile isWhiteSpace s). isWhiteSpace c"
    by (auto dest: set_takeWhileD)
  have 4: "\<forall>c \<in> set (rev (takeWhile isWhiteSpace (rev ?t))). isWhiteSpace c"
    by (auto dest: set_takeWhileD)
  from 1 2 have "s = takeWhile isWhiteSpace s @ trim s @ rev (takeWhile isWhiteSpace (rev ?t))"
    by metis
  with 3 4 show ?thesis by blast
qed

lemma trim_ends: "trim s \<noteq> [] \<Longrightarrow> \<not> isWhiteSpace (hd (trim s)) \<and> \<not> isWhiteSpace (last (trim s))"
proof -
  assume ne: "trim s \<noteq> []"
  let ?t = "dropWhile isWhiteSpace s"
  let ?u = "dropWhile isWhiteSpace (rev ?t)"
  from ne have une: "?u \<noteq> []" by (simp add: trim_def)
  then have l: "\<not> isWhiteSpace (hd ?u)" by (rule hd_dropWhile)
  have "last (trim s) = hd ?u" by (simp add: trim_def last_rev)
  with l have A: "\<not> isWhiteSpace (last (trim s))" by simp
  have tne: "?t \<noteq> []"
  proof
    assume e: "?t = []"
    have "?u = []" unfolding e by simp
    with une show False by simp
  qed
  then have h: "\<not> isWhiteSpace (hd ?t)" by (rule hd_dropWhile)
  have "rev ?t = takeWhile isWhiteSpace (rev ?t) @ ?u" by simp
  then have "last (rev ?t) = last ?u" using une by (metis last_appendR)
  moreover have "hd (trim s) = last ?u" by (simp add: trim_def hd_rev)
  moreover have "last (rev ?t) = hd ?t" by (simp add: last_rev)
  ultimately have "hd (trim s) = hd ?t" by simp
  with h A show ?thesis by simp
qed

lemma startsWith_prefix: "startsWith s t \<longleftrightarrow> prefix t s"
  by (induction s t rule: startsWith.induct) auto

lemma includes_str_sublist: "includes_str s t \<longleftrightarrow> sublist t s"
  by (induction s) (auto simp: startsWith_prefix sublist_Cons_right)

lemma findIndex_None: "findIndex P xs = None \<longleftrightarrow> (\<forall>x \<in> set xs. \<not> P x)"
  by (induction xs) auto

lemma findIndex_Some: "findIndex P xs = Some k \<Longrightarrow> k < length xs \<and> P (xs ! k) \<and> (\<forall>j < k. \<not> P (xs ! j))"
proof (induction xs arbitrary: k)
  case Nil then show ?case by simp
next
  case (Cons x xs)
  show ?case
  proof (cases "P x")
    case True with Cons.prems show ?thesis by simp
  next
    case False
    with Cons.prems obtain k' where k': "findIndex P xs = Some k'" "k = Suc k'" by auto
    from Cons.IH[OF k'(1)] False k'(2) show ?thesis
      by (auto simp: nth_Cons split: nat.splits)
  qed
qed


section \<open>Adding a prompt\<close>

lemma addPrompt_prompts:
  "prompts (snd (addPrompt put newId now d s)) = newPrompt newId now d # prompts s"
  by (cases put) (simp_all add: addPrompt_def savePrompts_def Let_def)

text \<open>
  C1 (as corrected). For every \<open>addPrompt(data)\<close> call where \<open>data.category\<close> is falsy
  (absent or the empty string), the newly constructed prompt, the first of the
  collection afterwards, has as its category the sentinel of the code: the three code
  units U+672A U+5206 U+7C7B.
\<close>

theorem add_defaults_category:
  "data.category d = None \<or> data.category d = Some [] \<Longrightarrow>
     category (hd (prompts (snd (addPrompt put newId now d s)))) = defaultCategory"
  by (auto simp: addPrompt_prompts newPrompt_def categoryOf_def truthy_def)

theorem add_defaults_category_witness:
  "data.category exampleData = Some [] \<and>
   category (hd (prompts (snd (addPrompt Resolves (utf16 ''k1'') (utf16 ''2024-01-03T00:00:00.000Z'')
      exampleData (constructor None))))) = [0x672A, 0x5206, 0x7C7B]"
  using add_defaults_category [where d = exampleData and put = Resolves
      and newId = "utf16 ''k1''" and now = "utf16 ''2024-01-03T00:00:00.000Z''"
      and s = "constructor None"]
  by (simp add: exampleData_def defaultCategory_def)

text \<open>
  C1 as the specification words it fails: for the form data of the specification's
  example, with the empty category, the category of the new prompt is not the string
  \<open>uncategorized\<close>.
\<close>

theorem add_category_counterexample:
  "category (hd (prompts (snd (addPrompt Resolves (utf16 ''k1'') (utf16 ''2024-01-03T00:00:00.000Z'')
      exampleData (constructor None))))) \<noteq> utf16 ''uncategorized''"
  by (simp add: addPrompt_def savePrompts_def newPrompt_def categoryOf_def truthy_def
      exampleData_def defaultCategory_def utf16_def Let_def)

text \<open>
  C10. For every \<open>addPrompt(data)\<close> call, the newly constructed prompt has
  \<open>createdAt\<close> equal to \<open>updatedAt\<close>: both are the time read at the start of the call.
\<close>

theorem add_created_equals_updated:
  "createdAt (hd (prompts (snd (addPrompt put newId now d s)))) =
     updatedAt (hd (prompts (snd (addPrompt put newId now d s)))) \<and>
   createdAt (hd (prompts (snd (addPrompt put newId now d s)))) = now"
  by (simp add: addPrompt_prompts newPrompt_def)

lemma groupsOf_Some:
  "groupsOf (d\<lparr>data.groups := Some g\<rparr>) = filter (\<lambda>l. l \<noteq> []) (map trim (split 0x2C g))"
  by (simp add: groupsOf_def truthy_def trim_def)

lemma groupsOf_label:
  assumes "l \<in> set (groupsOf d)"
  shows "l \<noteq> [] \<and> 0x2C \<notin> set l \<and> \<not> isWhiteSpace (hd l) \<and> \<not> isWhiteSpace (last l)"
proof -
  from assms obtain g where g: "data.groups d = Some g" and
    l: "l \<in> set (filter (\<lambda>l. l \<noteq> []) (map trim (split 0x2C g)))"
    by (auto simp: groupsOf_def truthy_def split: if_splits option.splits)
  from l obtain p where p: "p \<in> set (split 0x2C g)" and lp: "l = trim p" and ne: "l \<noteq> []"
    by auto
  from trim_decomp [of p] obtain a b where "p = a @ trim p @ b" by blast
  then have "set (trim p) \<subseteq> set p" by (metis Un_iff set_append subsetI)
  with split_no_sep [OF p] lp have "0x2C \<notin> set l" by blast
  with ne lp trim_ends [of p] show ?thesis by simp
qed

text \<open>
  C5. For every \<open>addPrompt(data)\<close> call, the \<open>groups\<close> of the new prompt are the
  input string \<open>data.groups\<close> split on commas (code unit 0x2C), each piece trimmed,
  the empty results discarded; they are the empty sequence when \<open>data.groups\<close> is
  falsy. Every label kept is non-empty, holds no comma and neither starts nor ends with
  white space. The input \<open>x, y, \<close> yields the groups \<open>x\<close> and \<open>y\<close>.
\<close>

theorem add_groups:
  "(data.groups d = Some g \<longrightarrow>
      groups (hd (prompts (snd (addPrompt put newId now d s)))) =
        Some (filter (\<lambda>l. l \<noteq> []) (map trim (split 0x2C g)))) \<and>
   (data.groups d = None \<or> data.groups d = Some [] \<longrightarrow>
      groups (hd (prompts (snd (addPrompt put newId now d s)))) = Some []) \<and>
   (\<forall>l. groups (hd (prompts (snd (addPrompt put newId now d s)))) = Some ls \<and> l \<in> set ls \<longrightarrow>
      l \<noteq> [] \<and> 0x2C \<notin> set l \<and> \<not> isWhiteSpace (hd l) \<and> \<not> isWhiteSpace (last l)) \<and>
   groups (hd (prompts (snd (addPrompt put newId now
      (d\<lparr>data.groups := Some (utf16 ''x, y, '')\<rparr>) s)))) = Some [utf16 ''x'', utf16 ''y'']"
proof -
  let ?new = "groups (hd (prompts (snd (addPrompt put newId now d s))))"
  have new: "?new = Some (groupsOf d)"
    by (simp add: addPrompt_prompts newPrompt_def)
  have 1: "data.groups d = Some g \<longrightarrow>
      ?new = Some (filter (\<lambda>l. l \<noteq> []) (map trim (split 0x2C g)))"
  proof
    assume "data.groups d = Some g"
    then have "d = d\<lparr>data.groups := Some g\<rparr>" by simp
    then have "groupsOf d = filter (\<lambda>l. l \<noteq> []) (map trim (split 0x2C g))"
      using groupsOf_Some [where d = d and g = g] by simp
    with new show "?new = Some (filter (\<lambda>l. l \<noteq> []) (map trim (split 0x2C g)))"
      by simp
  qed
  have 2: "data.groups d = None \<or> data.groups d = Some [] \<longrightarrow> ?new = Some []"
    by (auto simp: new groupsOf_def truthy_def)
  have 3: "\<forall>l. ?new = Some ls \<and> l \<in> set ls \<longrightarrow>
      l \<noteq> [] \<and> 0x2C \<notin> set l \<and> \<not> isWhiteSpace (hd l) \<and> \<not> isWhiteSpace (last l)"
    using groupsOf_label [of _ d] by (simp add: new)
  have 4: "groups (hd (prompts (snd (addPrompt put newId now
      (d\<lparr>data.groups := Some (utf16 ''x, y, '')\<rparr>) s)))) = Some [utf16 ''x'', utf16 ''y'']"
    by (simp add: addPrompt_prompts newPrompt_def groupsOf_Some utf16_def trim_def
        isWhiteSpace_def)
  from 1 2 3 4 show ?thesis by (intro conjI)
qed

theorem add_groups_witness:
  "data.groups exampleData = Some (utf16 ''x, y, '') \<and>
   groups (hd (prompts (snd (addPrompt Resolves (utf16 ''k1'') (utf16 ''2024-01-03T00:00:00.000Z'')
      exampleData (constructor None))))) = Some [[0x78], [0x79]] \<and>
   data.groups (exampleData\<lparr>data.groups := None\<rparr>) = None \<and>
   groups (hd (prompts (snd (addPrompt Resolves (utf16 ''k1'') (utf16 ''2024-01-03T00:00:00.000Z'')
      (exampleData\<lparr>data.groups := None\<rparr>) (constructor None))))) = Some []"
  using add_groups [where d = exampleData and g = "utf16 ''x, y, ''" and put = Resolves
      and newId = "utf16 ''k1''" and now = "utf16 ''2024-01-03T00:00:00.000Z''"
      and s = "constructor None"]
    add_groups [where d = "exampleData\<lparr>data.groups := None\<rparr>" and g = "[]"
      and put = Resolves and newId = "utf16 ''k1''"
      and now = "utf16 ''2024-01-03T00:00:00.000Z''" and s = "constructor None"]
  by (simp add: exampleData_def utf16_def trim_def isWhiteSpace_def)

text \<open>
  C6. For every sequence of \<open>addPrompt\<close> calls starting from any collection, each call
  prepends its new prompt: the collection afterwards is the new prompts, the most
  recently added first, in front of the collection at the start. This holds whatever the
  outcome of each storage write.
\<close>

theorem adds_newest_first:
  "prompts (addAll calls s) =
     rev (map (\<lambda>(put, newId, now, d). newPrompt newId now d) calls) @ prompts s \<and>
   prompts (addAll (calls @ [(put, newId, now, d)]) s) =
     newPrompt newId now d # prompts (addAll calls s)"
proof -
  have a: "prompts (addAll cs t) =
     rev (map (\<lambda>(put, newId, now, d). newPrompt newId now d) cs) @ prompts t" for cs t
    by (induction cs arbitrary: t) (auto simp: addPrompt_prompts)
  show ?thesis by (simp add: a)
qed


section \<open>Deleting a prompt\<close>

lemma filter_distinct_key:
  "distinct (map f xs) \<Longrightarrow> x \<in> set xs \<Longrightarrow> filter (\<lambda>p. f p \<noteq> f x) xs = remove1 x xs"
proof (induction xs)
  case Nil then show ?case by simp
next
  case (Cons y ys)
  show ?case
  proof (cases "y = x")
    case True
    with Cons.prems have "f x \<notin> f ` set ys" by simp
    then have "\<forall>p \<in> set ys. f p \<noteq> f x" by (metis imageI)
    then have "filter (\<lambda>p. f p \<noteq> f x) ys = ys" by (simp add: filter_id_conv)
    with True show ?thesis by simp
  next
    case False
    with Cons.prems have "x \<in> set ys" "f y \<noteq> f x" "distinct (map f ys)" by auto
    with Cons.IH False show ?thesis by simp
  qed
qed

lemma deletePrompt_prompts:
  "prompts (snd (deletePrompt put i s)) = filter (\<lambda>p. prompt_id p \<noteq> i) (prompts s)"
  by (cases put) (simp_all add: deletePrompt_def savePrompts_def)

text \<open>
  C2 (as corrected). For every collection whose prompts have pairwise distinct ids and
  every id, \<open>deletePrompt(id)\<close> removes exactly one entry, the prompt with that id, when
  the collection has one, and no entry otherwise; the size of the collection decreases by
  at most 1. The order of the remaining prompts is kept.
\<close>

theorem delete_removes_one:
  assumes "distinct (map prompt_id (prompts s))"
  shows "(i \<in> prompt_id ` set (prompts s) \<longrightarrow>
            (\<exists>p. p \<in> set (prompts s) \<and> prompt_id p = i \<and>
                 prompts (snd (deletePrompt put i s)) = remove1 p (prompts s)) \<and>
            length (prompts (snd (deletePrompt put i s))) + 1 = length (prompts s)) \<and>
         (i \<notin> prompt_id ` set (prompts s) \<longrightarrow>
            prompts (snd (deletePrompt put i s)) = prompts s) \<and>
         length (prompts (snd (deletePrompt put i s))) \<le> length (prompts s) \<and>
         length (prompts s) - length (prompts (snd (deletePrompt put i s))) \<le> 1"
proof -
  let ?after = "prompts (snd (deletePrompt put i s))"
  have present: "\<exists>p. p \<in> set (prompts s) \<and> prompt_id p = i \<and> ?after = remove1 p (prompts s)"
    if "i \<in> prompt_id ` set (prompts s)"
  proof -
    from that obtain p where p: "p \<in> set (prompts s)" "prompt_id p = i" by auto
    from filter_distinct_key [OF assms p(1)] p(2)
    have "?after = remove1 p (prompts s)" by (simp add: deletePrompt_prompts)
    with p show ?thesis by blast
  qed
  have len1: "length ?after + 1 = length (prompts s)" if "i \<in> prompt_id ` set (prompts s)"
  proof -
    from present [OF that] obtain p where "p \<in> set (prompts s)"
      "?after = remove1 p (prompts s)" by blast
    then show ?thesis by (simp add: length_remove1) (metis length_pos_if_in_set Suc_pred)
  qed
  have absent: "?after = prompts s" if "i \<notin> prompt_id ` set (prompts s)"
    using that by (auto simp: deletePrompt_prompts filter_id_conv)
  have le: "length ?after \<le> length (prompts s)"
    by (simp add: deletePrompt_prompts)
  have diff: "length (prompts s) - length ?after \<le> 1"
  proof (cases "i \<in> prompt_id ` set (prompts s)")
    case True from len1 [OF True] show ?thesis by simp
  next
    case False from absent [OF False] show ?thesis by simp
  qed
  from present len1 absent le diff show ?thesis by blast
qed

theorem delete_removes_one_witness:
  "distinct (map prompt_id (prompts exampleState)) \<and>
   utf16 ''b'' \<in> prompt_id ` set (prompts exampleState) \<and>
   prompts (snd (deletePrompt Resolves (utf16 ''b'') exampleState)) = [promptWork] \<and>
   utf16 ''c'' \<notin> prompt_id ` set (prompts exampleState) \<and>
   prompts (snd (deletePrompt Resolves (utf16 ''c'') exampleState)) = [promptWork, promptLife]"
proof -
  have d: "distinct (map prompt_id (prompts exampleState))"
    by (simp add: exampleState_def promptWork_def promptLife_def utf16_def)
  have b: "utf16 ''b'' \<in> prompt_id ` set (prompts exampleState)"
    by (simp add: exampleState_def promptWork_def promptLife_def utf16_def)
  have c: "utf16 ''c'' \<notin> prompt_id ` set (prompts exampleState)"
    by (simp add: exampleState_def promptWork_def promptLife_def utf16_def)
  from delete_removes_one [OF d, of "utf16 ''b''" Resolves] b
  obtain p where p: "p \<in> set (prompts exampleState)" "prompt_id p = utf16 ''b''"
    "prompts (snd (deletePrompt Resolves (utf16 ''b'') exampleState)) = remove1 p (prompts exampleState)"
    by blast
  from p(1,2) have "p = promptLife"
    by (auto simp: exampleState_def promptWork_def promptLife_def utf16_def)
  with p(3) have 1: "prompts (snd (deletePrompt Resolves (utf16 ''b'') exampleState)) = [promptWork]"
    by (simp add: exampleState_def promptWork_def promptLife_def utf16_def)
  from delete_removes_one [OF d, of "utf16 ''c''" Resolves] c
  have 2: "prompts (snd (deletePrompt Resolves (utf16 ''c'') exampleState)) = [promptWork, promptLife]"
    by (simp add: exampleState_def)
  from d b c 1 2 show ?thesis by simp
qed

text \<open>
  C2 as the specification words it, for every collection, fails: \<open>filter\<close> drops every
  prompt carrying the id, so a collection in which two prompts share an id loses both.
\<close>

theorem delete_duplicate_id_counterexample:
  "\<not> (length (prompts duplicateIdState) -
        length (prompts (snd (deletePrompt Resolves (utf16 ''a'') duplicateIdState))) \<le> 1) \<and>
   utf16 ''a'' \<in> prompt_id ` set (prompts duplicateIdState) \<and>
   length (prompts (snd (deletePrompt Resolves (utf16 ''a'') duplicateIdState))) + 1
     \<noteq> length (prompts duplicateIdState)"
  by (simp add: deletePrompt_def savePrompts_def duplicateIdState_def promptWork_def
      promptLife_def utf16_def)


section \<open>Updating a prompt\<close>

text \<open>
  C3. For every collection and every id that no prompt of the collection carries,
  \<open>updatePrompt(id, data)\<close> leaves the collection, the filter and the storage as they
  are and raises nothing: the storage is not written, so even a failing storage is not
  noticed.
\<close>

theorem update_missing_id_noop:
  "i \<notin> prompt_id ` set (prompts s) \<Longrightarrow> updatePrompt put now i d s = (None, s)"
proof -
  assume "i \<notin> prompt_id ` set (prompts s)"
  then have "findIndex (\<lambda>p. prompt_id p = i) (prompts s) = None"
    by (auto simp: findIndex_None)
  then show ?thesis by (simp add: updatePrompt_def)
qed

theorem update_missing_id_noop_witness:
  "utf16 ''c'' \<notin> prompt_id ` set (prompts exampleState) \<and>
   updatePrompt Rejects (utf16 ''2024-01-03T00:00:00.000Z'') (utf16 ''c'') exampleData exampleState
     = (None, exampleState)"
proof -
  have c: "utf16 ''c'' \<notin> prompt_id ` set (prompts exampleState)"
    by (simp add: exampleState_def promptWork_def promptLife_def utf16_def)
  from c update_missing_id_noop [OF c] show ?thesis by simp
qed

lemma findIndex_in_set:
  "i \<in> f ` set xs \<Longrightarrow> \<exists>k. findIndex (\<lambda>p. f p = i) xs = Some k"
  by (cases "findIndex (\<lambda>p. f p = i) xs") (auto simp: findIndex_None)

lemma updatePrompt_prompts:
  "findIndex (\<lambda>p. prompt_id p = i) (prompts s) = Some k \<Longrightarrow>
   prompts (snd (updatePrompt put now i d s)) =
     (prompts s)[k := (prompts s ! k)
        \<lparr>title := data.title d, content := data.content d, category := categoryOf d,
         groups := Some (groupsOf d), updatedAt := now\<rparr>]"
  by (cases put) (simp_all add: updatePrompt_def savePrompts_def)

lemma categoryOf_cases:
  "categoryOf d =
     (case data.category d of
        None \<Rightarrow> [0x672A, 0x5206, 0x7C7B]
      | Some c \<Rightarrow> if c = [] then [0x672A, 0x5206, 0x7C7B] else c)"
  by (simp add: categoryOf_def truthy_def defaultCategory_def split: option.splits)

lemma groupsOf_cases:
  "groupsOf d =
     (case data.groups d of
        None \<Rightarrow> []
      | Some g \<Rightarrow> filter (\<lambda>l. l \<noteq> []) (map trim (split 0x2C g)))"
  by (simp add: groupsOf_def truthy_def trim_def split: option.splits)

text \<open>
  C4. For every collection containing a prompt with the given id,
  \<open>updatePrompt(id, data)\<close> replaces the title, content, category and groups of that
  prompt (the first one carrying the id) from the data: the title and the content are
  the data's, the category is the data's when it is a non-empty string and the sentinel
  U+672A U+5206 U+7C7B otherwise, the groups are the non-empty trimmed pieces of the
  data's groups split on commas. It keeps the \<open>id\<close> and \<open>createdAt\<close> of the prompt,
  sets its \<open>updatedAt\<close> to the current time, and leaves every other prompt of the
  collection, and the length of the collection, as they were.
\<close>

theorem update_replaces_fields:
  assumes "i \<in> prompt_id ` set (prompts s)"
  shows "\<exists>k < length (prompts s).
           prompt_id (prompts s ! k) = i \<and>
           (\<forall>j < k. prompt_id (prompts s ! j) \<noteq> i) \<and>
           length (prompts (snd (updatePrompt put now i d s))) = length (prompts s) \<and>
           prompts (snd (updatePrompt put now i d s)) ! k =
             \<lparr>prompt_id = prompt_id (prompts s ! k),
              title = data.title d,
              content = data.content d,
              category =
                (case data.category d of
                   None \<Rightarrow> [0x672A, 0x5206, 0x7C7B]
                 | Some c \<Rightarrow> if c = [] then [0x672A, 0x5206, 0x7C7B] else c),
              groups =
                Some (case data.groups d of
                        None \<Rightarrow> []
                      | Some g \<Rightarrow> filter (\<lambda>l. l \<noteq> []) (map trim (split 0x2C g))),
              createdAt = createdAt (prompts s ! k),
              updatedAt = now\<rparr> \<and>
           (\<forall>j < length (prompts s). j \<noteq> k \<longrightarrow>
              prompts (snd (updatePrompt put now i d s)) ! j = prompts s ! j)"
proof -
  from findIndex_in_set [OF assms] obtain k
    where k: "findIndex (\<lambda>p. prompt_id p = i) (prompts s) = Some k" by blast
  from findIndex_Some [OF k]
  have lt: "k < length (prompts s)" and hit: "prompt_id (prompts s ! k) = i"
    and first: "\<forall>j < k. prompt_id (prompts s ! j) \<noteq> i" by simp_all
  note upd = updatePrompt_prompts [OF k, of put now d]
  have len: "length (prompts (snd (updatePrompt put now i d s))) = length (prompts s)"
    by (simp add: upd)
  have "prompts (snd (updatePrompt put now i d s)) ! k =
             \<lparr>prompt_id = prompt_id (prompts s ! k),
              title = data.title d,
              content = data.content d,
              category = categoryOf d,
              groups = Some (groupsOf d),
              createdAt = createdAt (prompts s ! k),
              updatedAt = now\<rparr>"
    using lt by (simp add: upd)
  then have new: "prompts (snd (updatePrompt put now i d s)) ! k =
             \<lparr>prompt_id = prompt_id (prompts s ! k),
              title = data.title d,
              content = data.content d,
              category =
                (case data.category d of
                   None \<Rightarrow> [0x672A, 0x5206, 0x7C7B]
                 | Some c \<Rightarrow> if c = [] then [0x672A, 0x5206, 0x7C7B] else c),
              groups =
                Some (case data.groups d of
                        None \<Rightarrow> []
                      | Some g \<Rightarrow> filter (\<lambda>l. l \<noteq> []) (map trim (split 0x2C g))),
              createdAt = createdAt (prompts s ! k),
              updatedAt = now\<rparr>"
    unfolding categoryOf_cases groupsOf_cases .
  have others: "\<forall>j < length (prompts s). j \<noteq> k \<longrightarrow>
              prompts (snd (updatePrompt put now i d s)) ! j = prompts s ! j"
    by (simp add: upd)
  from lt hit first len new others show ?thesis by blast
qed

text \<open>
  An edit of the second prompt of the example collection, with a category and groups in
  the data, and the same edit with the empty category of the specification's example.
\<close>

lemma update_example:
  "prompts (snd (updatePrompt Resolves (utf16 ''2024-01-03T00:00:00.000Z'') (utf16 ''b'')
      editData exampleState)) =
     [promptWork,
      \<lparr>prompt_id = utf16 ''b'', title = utf16 ''B'', content = utf16 ''new text'',
       category = utf16 ''home'', groups = Some [utf16 ''a'', utf16 ''b''],
       createdAt = utf16 ''2024-01-02T00:00:00.000Z'',
       updatedAt = utf16 ''2024-01-03T00:00:00.000Z''\<rparr>]"
  by (simp add: updatePrompt_def savePrompts_def exampleState_def promptWork_def
      promptLife_def editData_def categoryOf_def groupsOf_def truthy_def trim_def
      isWhiteSpace_def utf16_def)

lemma update_example_default:
  "prompts (snd (updatePrompt Resolves (utf16 ''2024-01-03T00:00:00.000Z'') (utf16 ''b'')
      exampleData exampleState)) =
     [promptWork,
      \<lparr>prompt_id = utf16 ''b'', title = utf16 ''A'', content = utf16 ''hello world'',
       category = [0x672A, 0x5206, 0x7C7B], groups = Some [utf16 ''x'', utf16 ''y''],
       createdAt = utf16 ''2024-01-02T00:00:00.000Z'',
       updatedAt = utf16 ''2024-01-03T00:00:00.000Z''\<rparr>]"
  by (simp add: updatePrompt_def savePrompts_def exampleState_def promptWork_def
      promptLife_def exampleData_def categoryOf_def groupsOf_def truthy_def trim_def
      isWhiteSpace_def utf16_def defaultCategory_def)

theorem update_replaces_fields_witness:
  "utf16 ''b'' \<in> prompt_id ` set (prompts exampleState) \<and>
   (\<exists>k < length (prompts exampleState).
           prompt_id (prompts exampleState ! k) = utf16 ''b'' \<and>
           (\<forall>j < k. prompt_id (prompts exampleState ! j) \<noteq> utf16 ''b'') \<and>
           length (prompts (snd (updatePrompt Resolves (utf16 ''2024-01-03T00:00:00.000Z'')
              (utf16 ''b'') editData exampleState))) = length (prompts exampleState) \<and>
           prompts (snd (updatePrompt Resolves (utf16 ''2024-01-03T00:00:00.000Z'')
              (utf16 ''b'') editData exampleState)) ! k =
             \<lparr>prompt_id = prompt_id (prompts exampleState ! k),
              title = data.title editData,
              content = data.content editData,
              category =
                (case data.category editData of
                   None \<Rightarrow> [0x672A, 0x5206, 0x7C7B]
                 | Some c \<Rightarrow> if c = [] then [0x672A, 0x5206, 0x7C7B] else c),
              groups =
                Some (case data.groups editData of
                        None \<Rightarrow> []
                      | Some g \<Rightarrow> filter (\<lambda>l. l \<noteq> []) (map trim (split 0x2C g))),
              createdAt = createdAt (prompts exampleState ! k),
              updatedAt = utf16 ''2024-01-03T00:00:00.000Z''\<rparr> \<and>
           (\<forall>j < length (prompts exampleState). j \<noteq> k \<longrightarrow>
              prompts (snd (updatePrompt Resolves (utf16 ''2024-01-03T00:00:00.000Z'')
                (utf16 ''b'') editData exampleState)) ! j = prompts exampleState ! j)) \<and>
   prompts (snd (updatePrompt Resolves (utf16 ''2024-01-03T00:00:00.000Z'') (utf16 ''b'')
      editData exampleState)) =
     [promptWork,
      \<lparr>prompt_id = utf16 ''b'', title = utf16 ''B'', content = utf16 ''new text'',
       category = utf16 ''home'', groups = Some [utf16 ''a'', utf16 ''b''],
       createdAt = utf16 ''2024-01-02T00:00:00.000Z'',
       updatedAt = utf16 ''2024-01-03T00:00:00.000Z''\<rparr>]"
proof -
  have b: "utf16 ''b'' \<in> prompt_id ` set (prompts exampleState)"
    by (simp add: exampleState_def promptWork_def promptLife_def utf16_def)
  from b update_replaces_fields [OF b, of Resolves "utf16 ''2024-01-03T00:00:00.000Z''" editData]
    update_example
  show ?thesis by (intro conjI)
qed


section \<open>Filtering\<close>




text \<open>
  Where no capital sigma is involved the conversion works code unit by code unit, and
  the search test of the callback is then a match up to case: some contiguous part of
  the title equals the search text once both are converted.
\<close>

lemma lowerFrom_map: "0x3A3 \<notin> set s \<Longrightarrow> lowerFrom before s = map lowerUnit s"
  by (induction s arbitrary: before) auto

lemma toLowerCase_map: "0x3A3 \<notin> set s \<Longrightarrow> toLowerCase s = map lowerUnit s"
  by (simp add: toLowerCase_def lowerFrom_map)

lemma sublist_map_iff:
  "sublist (map f t) (map f s) \<longleftrightarrow> (\<exists>part. sublist part s \<and> map f part = map f t)"
proof
  assume "sublist (map f t) (map f s)"
  then obtain ps ss where eq: "map f s = ps @ map f t @ ss" by (auto simp: sublist_def)
  then have "\<exists>us vs. s = us @ vs \<and> ps = map f us \<and> map f t @ ss = map f vs"
    by (simp only: map_eq_append_conv)
  then obtain a r where r: "s = a @ r" "map f t @ ss = map f r" by blast
  from r(2) have "\<exists>us vs. r = us @ vs \<and> map f t = map f us \<and> ss = map f vs"
    by (simp only: append_eq_map_conv)
  then obtain b c where "r = b @ c" "map f t = map f b" by blast
  with r(1) have "s = a @ b @ c" "map f b = map f t" by simp_all
  then show "\<exists>part. sublist part s \<and> map f part = map f t"
    by (auto simp: sublist_def)
next
  assume "\<exists>part. sublist part s \<and> map f part = map f t"
  then obtain part where "sublist part s" "map f part = map f t" by blast
  then show "sublist (map f t) (map f s)" by (metis map_mono_sublist)
qed

lemma search_up_to_case:
  "0x3A3 \<notin> set t \<Longrightarrow> 0x3A3 \<notin> set s \<Longrightarrow>
   includes_str (toLowerCase s) (toLowerCase t) \<longleftrightarrow>
     (\<exists>part. sublist part s \<and> map lowerUnit part = map lowerUnit t)"
  by (simp add: toLowerCase_map includes_str_sublist sublist_map_iff)

lemma search_ignores_case_example:
  "getFilteredPrompts toLowerCase
     (exampleState\<lparr>currentFilter := \<lparr>search = utf16 ''FIR'', filter_state.category = [], group = []\<rparr>\<rparr>)
   = [promptWork]"
  by (simp add: getFilteredPrompts_def passes_def exampleState_def promptWork_def
      promptLife_def toLowerCase_def nextToCased_def isCased_def isCaseIgnorable_def
      lowerUnit_def utf16_def)

lemma filter_category_example:
  "getFilteredPrompts lowerCase
     (exampleState\<lparr>currentFilter := \<lparr>search = [], filter_state.category = utf16 ''work'', group = []\<rparr>\<rparr>)
   = [promptWork]"
  by (simp add: getFilteredPrompts_def passes_def exampleState_def promptWork_def promptLife_def utf16_def)


section \<open>Categories\<close>

lemma fold_set_add:
  "distinct acc \<Longrightarrow>
   distinct (fold (\<lambda>p cs. if f p \<noteq> [] then set_add (f p) cs else cs) ps acc) \<and>
   set (fold (\<lambda>p cs. if f p \<noteq> [] then set_add (f p) cs else cs) ps acc) =
     set acc \<union> {c. c \<noteq> [] \<and> c \<in> f ` set ps}"
proof (induction ps arbitrary: acc)
  case Nil then show ?case by simp
next
  case (Cons p ps)
  let ?acc = "if f p \<noteq> [] then set_add (f p) acc else acc"
  from Cons.prems have d: "distinct ?acc" by (simp add: set_add_def)
  have s: "set ?acc = set acc \<union> {c. c \<noteq> [] \<and> c = f p}"
    by (auto simp: set_add_def)
  from Cons.IH [OF d] s show ?case by auto
qed

text \<open>
  C8. For every collection and every filter state, \<open>getCategories()\<close> returns the
  sorted sequence of the distinct non-empty category strings of the whole collection,
  and changing the filter does not change its result.
\<close>

theorem categories_sorted_distinct:
  "sorted (getCategories s) \<and>
   distinct (getCategories s) \<and>
   set (getCategories s) = {c. c \<noteq> [] \<and> c \<in> category ` set (prompts s)} \<and>
   getCategories (s\<lparr>currentFilter := f\<rparr>) = getCategories s"
  using fold_set_add [of "[]" category "prompts s"]
  by (simp add: getCategories_def)

lemma categories_example:
  "getCategories (exampleState\<lparr>prompts := promptWork\<lparr>category := []\<rparr> # promptLife # prompts exampleState\<rparr>)
     = [utf16 ''life'', utf16 ''work'']"
  by (simp add: getCategories_def exampleState_def promptWork_def promptLife_def utf16_def set_add_def)


section \<open>Adding, then loading\<close>

text \<open>
  C9. When the storage write of \<open>addPrompt(X)\<close> and the storage read of
  \<open>loadPrompts()\<close> resolve, loading after the add, in a freshly constructed manager
  in front of the same storage (a reload) or in the same manager, yields the collection
  as the add left it; it contains the prompt created from \<open>X\<close> with every field as the
  add set it.
\<close>

theorem add_then_load:
  "fst (addPrompt Resolves newId now d s) = None \<and>
   (let s1 = snd (addPrompt Resolves newId now d s);
        reloaded = loadPrompts Resolves (constructor (stored s1));
        again = loadPrompts Resolves s1
    in fst reloaded = None \<and>
       prompts (snd reloaded) = prompts s1 \<and>
       hd (prompts s1) \<in> set (prompts (snd reloaded)) \<and>
       fst again = None \<and>
       prompts (snd again) = prompts s1 \<and>
       hd (prompts s1) =
         \<lparr>prompt_id = newId, title = data.title d, content = data.content d,
          category = categoryOf d, groups = Some (groupsOf d),
          createdAt = now, updatedAt = now\<rparr>)"
  by (simp add: addPrompt_def savePrompts_def loadPrompts_def constructor_def Let_def
      newPrompt_def)

text \<open>
  When the write of the add is rejected, the add raises the storage error after the
  prompt was put in front of the collection in memory; the storage still holds what it
  held, and a reload reads that.
\<close>

lemma add_rejected_then_load:
  "fst (addPrompt Rejects newId now d s) = Some StorageError \<and>
   prompts (snd (addPrompt Rejects newId now d s)) = newPrompt newId now d # prompts s \<and>
   prompts (snd (loadPrompts Resolves
      (constructor (stored (snd (addPrompt Rejects newId now d s)))))) =
     (case stored s of None \<Rightarrow> [] | Some ps \<Rightarrow> ps)"
  by (simp add: addPrompt_def savePrompts_def loadPrompts_def constructor_def Let_def)

end
